theory Spec2Isabelle
  imports Complex_Main
begin

section \<open>Python values used by the booking agent\<close>

text \<open>
  The agent is written in Python. Three pieces of Python behaviour matter for its
  control flow and its messages: truthiness (\<^verbatim>\<open>if x:\<close> is false for \<^verbatim>\<open>None\<close>, for the
  empty string and for \<^verbatim>\<open>0\<close>), f-string formatting (\<^verbatim>\<open>None\<close> prints as \<^verbatim>\<open>None\<close>, an
  integer in decimal) and the substring test \<^verbatim>\<open>p in s\<close>.
\<close>

datatype error = IndexError | KeyError

definition truthy_str :: "string option \<Rightarrow> bool" where
  "truthy_str x = (case x of None \<Rightarrow> False | Some v \<Rightarrow> v \<noteq> [])"

definition truthy_int :: "int option \<Rightarrow> bool" where
  "truthy_int x = (case x of None \<Rightarrow> False | Some v \<Rightarrow> v \<noteq> 0)"

function str_nat :: "nat \<Rightarrow> string" where
  "str_nat n =
     (if n < 10 then [''0123456789'' ! n]
      else str_nat (n div 10) @ [''0123456789'' ! (n mod 10)])"
  by pat_completeness auto
termination
  by (relation "measure id") auto

declare str_nat.simps [simp del]

definition str_int :: "int \<Rightarrow> string" where
  "str_int i = (if i < 0 then CHR ''-'' # str_nat (nat (- i)) else str_nat (nat i))"

definition fmt_str :: "string option \<Rightarrow> string" where
  "fmt_str x = (case x of None \<Rightarrow> ''None'' | Some v \<Rightarrow> v)"

definition fmt_int :: "int option \<Rightarrow> string" where
  "fmt_int x = (case x of None \<Rightarrow> ''None'' | Some v \<Rightarrow> str_int v)"

abbreviation nl :: string where
  "nl \<equiv> [CHR 0x0A]"

fun starts_with :: "string \<Rightarrow> string \<Rightarrow> bool" where
  "starts_with s [] = True"
| "starts_with [] (p # ps) = False"
| "starts_with (c # cs) (p # ps) = (c = p \<and> starts_with cs ps)"

text \<open>\<open>contains s p\<close> is Python's \<^verbatim>\<open>p in s\<close> on strings.\<close>

fun contains :: "string \<Rightarrow> string \<Rightarrow> bool" where
  "contains [] p = (p = [])"
| "contains (c # cs) p = (starts_with (c # cs) p \<or> contains cs p)"

section \<open>The session state (agent/state.py)\<close>

text \<open>
  \<^verbatim>\<open>BookingState\<close> is a \<^verbatim>\<open>TypedDict\<close>. Both front ends (main.py, streamlit\_app.py) create
  it with all twelve keys, so the model is a record; an optional field that holds
  \<^verbatim>\<open>None\<close> is \<open>None\<close>. A message is its class (\<^verbatim>\<open>HumanMessage\<close>, \<^verbatim>\<open>AIMessage\<close>,
  \<^verbatim>\<open>SystemMessage\<close>) and its content.
\<close>

datatype role = Human | AI | System

type_synonym message = "role \<times> string"

record BookingState =
  messages :: "message list"
  restaurant_name :: "string option"
  date :: "string option"
  time :: "string option"
  party_size :: "int option"
  customer_name :: "string option"
  phone :: "string option"
  booking_ref :: "string option"
  all_info_collected :: bool
  awaiting_confirmation :: bool
  user_confirmed :: bool
  conversation_complete :: bool

text \<open>The state both front ends start a session with (main.py, lines 41 to 54).\<close>

definition initial_state :: BookingState where
  "initial_state =
     \<lparr>messages = [], restaurant_name = None, date = None, time = None, party_size = None,
      customer_name = None, phone = None, booking_ref = None, all_info_collected = False,
      awaiting_confirmation = False, user_confirmed = False, conversation_complete = False\<rparr>"

text \<open>
  A node returns a dict of updates. The graph library writes every key of that dict into
  the state: \<^verbatim>\<open>messages\<close> is declared with the \<^verbatim>\<open>add_messages\<close> reducer, so its value is
  appended; every other key overwrites. An update dict is modelled as the list of its
  items.
\<close>

datatype update =
    Add_messages "message list"
  | Set_restaurant_name "string option"
  | Set_date "string option"
  | Set_time "string option"
  | Set_party_size "int option"
  | Set_customer_name "string option"
  | Set_phone "string option"
  | Set_booking_ref "string option"
  | Set_all_info_collected bool
  | Set_awaiting_confirmation bool
  | Set_user_confirmed bool
  | Set_conversation_complete bool

fun apply_update :: "update \<Rightarrow> BookingState \<Rightarrow> BookingState" where
  "apply_update (Add_messages ms) s = s\<lparr>messages := messages s @ ms\<rparr>"
| "apply_update (Set_restaurant_name v) s = s\<lparr>restaurant_name := v\<rparr>"
| "apply_update (Set_date v) s = s\<lparr>date := v\<rparr>"
| "apply_update (Set_time v) s = s\<lparr>time := v\<rparr>"
| "apply_update (Set_party_size v) s = s\<lparr>party_size := v\<rparr>"
| "apply_update (Set_customer_name v) s = s\<lparr>customer_name := v\<rparr>"
| "apply_update (Set_phone v) s = s\<lparr>phone := v\<rparr>"
| "apply_update (Set_booking_ref v) s = s\<lparr>booking_ref := v\<rparr>"
| "apply_update (Set_all_info_collected b) s = s\<lparr>all_info_collected := b\<rparr>"
| "apply_update (Set_awaiting_confirmation b) s = s\<lparr>awaiting_confirmation := b\<rparr>"
| "apply_update (Set_user_confirmed b) s = s\<lparr>user_confirmed := b\<rparr>"
| "apply_update (Set_conversation_complete b) s = s\<lparr>conversation_complete := b\<rparr>"

definition apply_updates :: "update list \<Rightarrow> BookingState \<Rightarrow> BookingState" where
  "apply_updates us s = fold apply_update us s"

section \<open>The external services\<close>

text \<open>
  The two structured outputs of the language model (agent/nodes.py, lines 34 to 54). The
  fields of \<^verbatim>\<open>BookingInfo\<close> carry the prefix \<open>info_\<close> because a record field is a
  constant and the state already owns the plain names.
\<close>

record BookingInfo =
  info_restaurant_name :: "string option"
  info_date :: "string option"
  info_time :: "string option"
  info_party_size :: "int option"
  info_customer_name :: "string option"
  info_phone :: "string option"
  response_message :: string

record ConfirmationResponse =
  user_wants_to_proceed :: bool
  requested_changes :: "string option"

text \<open>
  The arguments of \<^verbatim>\<open>create_booking\<close>, in the order restaurant, date, time, party size,
  name, phone, and the part of its result the nodes read: \<^verbatim>\<open>result["success"]\<close> and
  \<^verbatim>\<open>result["booking_ref"]\<close>. The \<^verbatim>\<open>error\<close> text of a failed call is never read.
\<close>

type_synonym booking_args =
  "string option \<times> string option \<times> string option \<times> int option \<times> string option \<times> string option"

record booking_result =
  success :: bool
  result_ref :: "string option"

text \<open>
  The nodes reach the language model and the two services through module-level names,
  which the unit tests replace by mocks. The model passes them as a record of functions.
  The model's answer may depend on the whole state (the system prompt of the collection
  node is built from the six fields and the history; the current date and the sampling
  are inside the function). The services are random, so the answer of a service depends
  on how many calls it has already received as well as on the arguments.
\<close>

record adapters =
  extract_booking_info :: "BookingState \<Rightarrow> BookingInfo"
  interpret_confirmation :: "message list \<Rightarrow> ConfirmationResponse"
  create_booking :: "nat \<Rightarrow> booking_args \<Rightarrow> booking_result"
  send_sms :: "nat \<Rightarrow> string option \<Rightarrow> string \<Rightarrow> bool"

text \<open>The world outside the session: every service call made so far, with its answer.\<close>

record world =
  booking_calls :: "(booking_args \<times> booking_result) list"
  sms_calls :: "((string option \<times> string) \<times> bool) list"

definition no_calls :: world where
  "no_calls = \<lparr>booking_calls = [], sms_calls = []\<rparr>"

definition call_create_booking ::
  "adapters \<Rightarrow> booking_args \<Rightarrow> world \<Rightarrow> booking_result \<times> world" where
  "call_create_booking A a w =
     (let r = create_booking A (length (booking_calls w)) a
      in (r, w\<lparr>booking_calls := booking_calls w @ [(a, r)]\<rparr>))"

definition call_send_sms ::
  "adapters \<Rightarrow> string option \<Rightarrow> string \<Rightarrow> world \<Rightarrow> bool \<times> world" where
  "call_send_sms A p m w =
     (let r = send_sms A (length (sms_calls w)) p m
      in (r, w\<lparr>sms_calls := sms_calls w @ [((p, m), r)]\<rparr>))"

section \<open>The nodes (agent/nodes.py)\<close>

text \<open>The entry routing: a session that waits for a yes or no goes to the decision node.\<close>

definition router_node :: "BookingState \<Rightarrow> string" where
  "router_node s =
     (if awaiting_confirmation s then ''handle_confirmation'' else ''collect_info'')"

text \<open>
  The collection node asks the model for a \<^verbatim>\<open>BookingInfo\<close> and copies into the update
  dict each field that is truthy (\<^verbatim>\<open>if response.restaurant_name:\<close> and so on), after the
  model's reply text.
\<close>

definition collect_info_node :: "adapters \<Rightarrow> BookingState \<Rightarrow> update list" where
  "collect_info_node A s =
     (let response = extract_booking_info A s
      in [Add_messages [(AI, response_message response)]]
         @ (if truthy_str (info_restaurant_name response)
            then [Set_restaurant_name (info_restaurant_name response)] else [])
         @ (if truthy_str (info_date response) then [Set_date (info_date response)] else [])
         @ (if truthy_str (info_time response) then [Set_time (info_time response)] else [])
         @ (if truthy_int (info_party_size response)
            then [Set_party_size (info_party_size response)] else [])
         @ (if truthy_str (info_customer_name response)
            then [Set_customer_name (info_customer_name response)] else [])
         @ (if truthy_str (info_phone response) then [Set_phone (info_phone response)] else []))"

text \<open>The test after collection is \<^verbatim>\<open>field is not None\<close>, not truthiness.\<close>

definition should_continue_collecting :: "BookingState \<Rightarrow> string" where
  "should_continue_collecting s =
     (let required_fields =
            [restaurant_name s \<noteq> None, date s \<noteq> None, time s \<noteq> None, party_size s \<noteq> None,
             customer_name s \<noteq> None, phone s \<noteq> None];
          all_filled = list_all (\<lambda>b. b) required_fields
      in if all_filled then ''confirm'' else ''collect'')"

definition confirmation_message :: "BookingState \<Rightarrow> string" where
  "confirmation_message s =
     ''Great! Let me confirm the details of your booking:'' @ nl @ nl
     @ ''Restaurant: '' @ fmt_str (restaurant_name s) @ nl
     @ ''Date: '' @ fmt_str (date s) @ nl
     @ ''Time: '' @ fmt_str (time s) @ nl
     @ ''Party size: '' @ fmt_int (party_size s) @ '' people'' @ nl
     @ ''Name: '' @ fmt_str (customer_name s) @ nl
     @ ''Phone: '' @ fmt_str (phone s) @ nl @ nl
     @ ''Does everything look correct? (You can say 'yes' to confirm, or let me know if you'd like to change anything)''"

definition confirm_node :: "BookingState \<Rightarrow> update list" where
  "confirm_node s =
     [Add_messages [(AI, confirmation_message s)],
      Set_all_info_collected True,
      Set_awaiting_confirmation True]"

text \<open>
  The decision node asks the model for a \<^verbatim>\<open>ConfirmationResponse\<close> on the history (behind a
  fixed system prompt, which is part of the function here). In the first branch
  \<^verbatim>\<open>requested_changes\<close> is truthy, hence a string, and \<open>the\<close> reads it.
\<close>

definition handle_confirmation_node :: "adapters \<Rightarrow> BookingState \<Rightarrow> update list" where
  "handle_confirmation_node A s =
     (let response = interpret_confirmation A (messages s)
      in if \<not> user_wants_to_proceed response \<and> truthy_str (requested_changes response)
         then [Set_user_confirmed False,
               Set_awaiting_confirmation False,
               Add_messages [(AI, the (requested_changes response))]]
         else [Set_user_confirmed (user_wants_to_proceed response),
               Set_awaiting_confirmation False])"

definition check_confirmation_routing :: "BookingState \<Rightarrow> string" where
  "check_confirmation_routing s = (if user_confirmed s then ''proceed'' else ''collect'')"

definition booking_args_of :: "BookingState \<Rightarrow> booking_args" where
  "booking_args_of s =
     (restaurant_name s, date s, time s, party_size s, customer_name s, phone s)"

definition create_booking_node ::
  "adapters \<Rightarrow> BookingState \<Rightarrow> world \<Rightarrow> update list \<times> world" where
  "create_booking_node A s w =
     (case call_create_booking A (booking_args_of s) w of (result, w') \<Rightarrow>
        if success result
        then ([Set_booking_ref (result_ref result),
               Add_messages [(AI, ''Perfect! I've created your booking. Reference: ''
                                  @ fmt_str (result_ref result))]], w')
        else ([Set_booking_ref None], w'))"

definition booking_error_message :: "BookingState \<Rightarrow> string" where
  "booking_error_message s =
     ''I'm having trouble creating your booking right now. This might be a temporary issue with the booking system.''
     @ nl @ nl
     @ ''I've recorded your details:'' @ nl
     @ ''- Restaurant: '' @ fmt_str (restaurant_name s) @ nl
     @ ''- Date: '' @ fmt_str (date s) @ '' at '' @ fmt_str (time s) @ nl
     @ ''- Party size: '' @ fmt_int (party_size s) @ nl
     @ ''- Name: '' @ fmt_str (customer_name s) @ nl
     @ ''- Phone: '' @ fmt_str (phone s) @ nl @ nl
     @ ''Can I have someone from the restaurant call you back to confirm the booking?''"

text \<open>The recovery node calls \<^verbatim>\<open>create_booking\<close> once more, with the same arguments.\<close>

definition handle_booking_error_node ::
  "adapters \<Rightarrow> BookingState \<Rightarrow> world \<Rightarrow> update list \<times> world" where
  "handle_booking_error_node A s w =
     (case call_create_booking A (booking_args_of s) w of (result, w') \<Rightarrow>
        if success result
        then ([Set_booking_ref (result_ref result),
               Add_messages [(AI, ''Success! Your booking has been created. Reference: ''
                                  @ fmt_str (result_ref result))]], w')
        else ([Add_messages [(AI, booking_error_message s)],
               Set_conversation_complete True], w'))"

definition sms_message :: "BookingState \<Rightarrow> string" where
  "sms_message s =
     ''Your booking is confirmed!'' @ nl @ nl
     @ ''Restaurant: '' @ fmt_str (restaurant_name s) @ nl
     @ ''Date: '' @ fmt_str (date s) @ nl
     @ ''Time: '' @ fmt_str (time s) @ nl
     @ ''Party: '' @ fmt_int (party_size s) @ '' people'' @ nl
     @ ''Ref: '' @ fmt_str (booking_ref s) @ nl @ nl
     @ ''See you there! Reply CANCEL to modify.''"

definition send_sms_node ::
  "adapters \<Rightarrow> BookingState \<Rightarrow> world \<Rightarrow> update list \<times> world" where
  "send_sms_node A s w =
     (case call_send_sms A (phone s) (sms_message s) w of (result, w') \<Rightarrow>
        if result
        then ([Add_messages
                 [(AI, ''I've sent a confirmation SMS to your phone. Your booking is all set!'')],
               Set_conversation_complete True], w')
        else ([], w'))"

definition sms_error_message :: "BookingState \<Rightarrow> string" where
  "sms_error_message s =
     ''Your booking is confirmed!'' @ nl @ nl
     @ ''However, I couldn't send the confirmation SMS. Please save this information:'' @ nl @ nl
     @ ''Restaurant: '' @ fmt_str (restaurant_name s) @ nl
     @ ''Date: '' @ fmt_str (date s) @ nl
     @ ''Time: '' @ fmt_str (time s) @ nl
     @ ''Party size: '' @ fmt_int (party_size s) @ nl
     @ ''Booking Reference: '' @ fmt_str (booking_ref s) @ nl @ nl
     @ ''Please screenshot or write down your booking reference: '' @ fmt_str (booking_ref s)"

definition handle_sms_error_node :: "BookingState \<Rightarrow> update list" where
  "handle_sms_error_node s =
     [Add_messages [(AI, sms_error_message s)],
      Set_conversation_complete True]"

section \<open>The graph (agent/graph.py)\<close>

definition check_booking_success :: "BookingState \<Rightarrow> string" where
  "check_booking_success s =
     (if truthy_str (booking_ref s) then ''send_sms'' else ''handle_booking_error'')"

definition END :: string where
  "END = ''__end__''"

text \<open>\<^verbatim>\<open>state["messages"][-1]\<close> raises \<^verbatim>\<open>IndexError\<close> on an empty history.\<close>

definition check_sms_success :: "BookingState \<Rightarrow> error + string" where
  "check_sms_success s =
     (if messages s = [] then Inl IndexError
      else let last_message = snd (last (messages s))
           in if contains last_message ''sent a confirmation SMS'' then Inr END
              else Inr ''handle_sms_error'')"

datatype node =
    Router | Collect_info | Confirm | Handle_confirmation
  | Create_booking | Send_sms | Handle_booking_error | Handle_sms_error

text \<open>
  Running one node gives its update dict and the world after its service calls. The
  \<^verbatim>\<open>router\<close> node is \<^verbatim>\<open>lambda state: state\<close>: it writes the state back as it is.
\<close>

fun run_node :: "adapters \<Rightarrow> node \<Rightarrow> BookingState \<Rightarrow> world \<Rightarrow> update list \<times> world" where
  "run_node A Router s w = ([], w)"
| "run_node A Collect_info s w = (collect_info_node A s, w)"
| "run_node A Confirm s w = (confirm_node s, w)"
| "run_node A Handle_confirmation s w = (handle_confirmation_node A s, w)"
| "run_node A Create_booking s w = create_booking_node A s w"
| "run_node A Send_sms s w = send_sms_node A s w"
| "run_node A Handle_booking_error s w = handle_booking_error_node A s w"
| "run_node A Handle_sms_error s w = (handle_sms_error_node s, w)"

text \<open>
  The edges of \<^verbatim>\<open>build_graph\<close>. A conditional edge calls its routing function on the
  state and looks the answer up in its path map; \<open>None\<close> is the library's \<^verbatim>\<open>END\<close>.
\<close>

definition follow :: "(string \<times> node option) list \<Rightarrow> string \<Rightarrow> error + node option" where
  "follow path_map label =
     (case map_of path_map label of None \<Rightarrow> Inl KeyError | Some target \<Rightarrow> Inr target)"

fun next_node :: "node \<Rightarrow> BookingState \<Rightarrow> error + node option" where
  "next_node Router s =
     follow [(''collect_info'', Some Collect_info),
             (''handle_confirmation'', Some Handle_confirmation)] (router_node s)"
| "next_node Collect_info s =
     follow [(''collect'', None), (''confirm'', Some Confirm)] (should_continue_collecting s)"
| "next_node Confirm s = Inr None"
| "next_node Handle_confirmation s =
     follow [(''proceed'', Some Create_booking), (''collect'', None)]
       (check_confirmation_routing s)"
| "next_node Create_booking s =
     follow [(''send_sms'', Some Send_sms),
             (''handle_booking_error'', Some Handle_booking_error)] (check_booking_success s)"
| "next_node Send_sms s =
     (case check_sms_success s of
        Inl e \<Rightarrow> Inl e
      | Inr label \<Rightarrow> follow [(END, None), (''handle_sms_error'', Some Handle_sms_error)] label)"
| "next_node Handle_booking_error s = Inr None"
| "next_node Handle_sms_error s = Inr None"

text \<open>How many more nodes can run after a node: the graph has no cycle.\<close>

fun depth :: "node \<Rightarrow> nat" where
  "depth Router = 5"
| "depth Handle_confirmation = 4"
| "depth Create_booking = 3"
| "depth Send_sms = 2"
| "depth Collect_info = 1"
| "depth Confirm = 0"
| "depth Handle_booking_error = 0"
| "depth Handle_sms_error = 0"

text \<open>
  The engine: run the node, write its updates into the state, ask the edge for the next
  node, stop at \<^verbatim>\<open>END\<close>. An exception of a routing function ends the run with that error.
\<close>

function run_from ::
  "adapters \<Rightarrow> node \<Rightarrow> BookingState \<Rightarrow> world \<Rightarrow> error + BookingState \<times> world" where
  "run_from A n s w =
     (case run_node A n s w of (us, w') \<Rightarrow>
        (case next_node n (apply_updates us s) of
           Inl e \<Rightarrow> Inl e
         | Inr None \<Rightarrow> Inr (apply_updates us s, w')
         | Inr (Some n') \<Rightarrow> run_from A n' (apply_updates us s) w'))"
  by pat_completeness auto
termination
proof (relation "measure (\<lambda>(A, n, s, w). depth n)")
  show "wf (measure (\<lambda>(A, n, s, w). depth n))"
    by simp
next
  fix A :: adapters and n n' :: node and s :: BookingState and w w' :: world
    and us :: "update list" and t :: "node option"
  assume "next_node n (apply_updates us s) = Inr t" and "t = Some n'"
  then have "depth n' < depth n"
    by (cases n)
       (auto simp: follow_def split: sum.splits option.splits if_splits dest!: map_of_SomeD)
  then show "((A, n', apply_updates us s, w'), (A, n, s, w))
               \<in> measure (\<lambda>(A, n, s, w). depth n)"
    by simp
qed

declare run_from.simps [simp del]

text \<open>\<^verbatim>\<open>app.invoke(state)\<close>: the entry point of the graph is the router.\<close>

definition invoke :: "adapters \<Rightarrow> BookingState \<Rightarrow> world \<Rightarrow> error + BookingState \<times> world" where
  "invoke A s w = run_from A Router s w"

text \<open>
  One turn of a front end: it appends the user's text as a \<^verbatim>\<open>HumanMessage\<close> and invokes
  the graph on the state (main.py, lines 87 to 91).
\<close>

definition user_turn ::
  "adapters \<Rightarrow> string \<Rightarrow> BookingState \<Rightarrow> world \<Rightarrow> error + BookingState \<times> world" where
  "user_turn A text s w = invoke A (s\<lparr>messages := messages s @ [(Human, text)]\<rparr>) w"

text \<open>
  A session is the sequence of turns a front end runs on one state, from the initial
  state. Each turn may meet different answers of the model and of the services, so a turn
  is a pair of the adapters of that turn and the user's text. The web front end goes on
  invoking the graph whatever the flags say; the terminal front end stops or starts a
  new session once \<^verbatim>\<open>conversation_complete\<close> is set, so its sessions are among these.
  A turn that raised would end the session with its error; \<open>run_session_total\<close> below
  shows that no turn does.
\<close>

fun run_session ::
  "(adapters \<times> string) list \<Rightarrow> BookingState \<Rightarrow> world \<Rightarrow> error + BookingState \<times> world" where
  "run_session [] s w = Inr (s, w)"
| "run_session ((A, text) # turns) s w =
     (case user_turn A text s w of
        Inl e \<Rightarrow> Inl e
      | Inr (s', w') \<Rightarrow> run_session turns s' w')"

text \<open>The collection node alone, on a sequence of answers of the model.\<close>

fun collect_sequence :: "adapters list \<Rightarrow> BookingState \<Rightarrow> BookingState" where
  "collect_sequence [] s = s"
| "collect_sequence (A # As) s = collect_sequence As (apply_updates (collect_info_node A s) s)"

section \<open>The mock services (apis/booking.py, apis/sms.py)\<close>






section \<open>Test doubles and sample states\<close>

text \<open>
  Adapters in the manner of the unit tests' mocks: the model gives fixed answers, and each
  service answers its \<open>n\<close>-th call with the \<open>n\<close>-th entry of a list (and fails after the
  last one).
\<close>

definition scripted ::
  "BookingInfo \<Rightarrow> ConfirmationResponse \<Rightarrow> booking_result list \<Rightarrow> bool list \<Rightarrow> adapters" where
  "scripted info decision bookings notifications =
     \<lparr>extract_booking_info = (\<lambda>s. info),
      interpret_confirmation = (\<lambda>ms. decision),
      create_booking =
        (\<lambda>n a. if n < length bookings then bookings ! n
                else \<lparr>success = False, result_ref = None\<rparr>),
      send_sms = (\<lambda>n p m. n < length notifications \<and> notifications ! n)\<rparr>"

definition no_info :: "string \<Rightarrow> BookingInfo" where
  "no_info reply =
     \<lparr>info_restaurant_name = None, info_date = None, info_time = None, info_party_size = None,
      info_customer_name = None, info_phone = None, response_message = reply\<rparr>"

definition says_yes :: ConfirmationResponse where
  "says_yes = \<lparr>user_wants_to_proceed = True, requested_changes = None\<rparr>"

definition booked :: "string \<Rightarrow> booking_result" where
  "booked r = \<lparr>success = True, result_ref = Some r\<rparr>"

definition refused :: booking_result where
  "refused = \<lparr>success = False, result_ref = None\<rparr>"

text \<open>The booking of the unit tests, after the summary was shown and the user said yes.\<close>

definition sample_state :: BookingState where
  "sample_state =
     \<lparr>messages = [(Human, ''yes'')],
      restaurant_name = Some ''Mario's'', date = Some ''2025-12-01'', time = Some ''19:00'',
      party_size = Some 4, customer_name = Some ''John Smith'', phone = Some ''555-1234'',
      booking_ref = None, all_info_collected = True, awaiting_confirmation = True,
      user_confirmed = False, conversation_complete = False\<rparr>"

text \<open>The same booking after a run that booked it and sent the notification.\<close>

definition completed_state :: BookingState where
  "completed_state =
     sample_state\<lparr>booking_ref := Some ''BK-12345'', awaiting_confirmation := False,
       user_confirmed := True, conversation_complete := True\<rparr>"

definition says_no :: "string option \<Rightarrow> ConfirmationResponse" where
  "says_no changes = \<lparr>user_wants_to_proceed = False, requested_changes = changes\<rparr>"

text \<open>The sample booking once the commit node has stored a reference \<open>r\<close>.\<close>

definition booked_state :: "string \<Rightarrow> BookingState" where
  "booked_state r =
     sample_state\<lparr>user_confirmed := True, awaiting_confirmation := False,
       booking_ref := Some r,
       messages := messages sample_state
         @ [(AI, ''Perfect! I've created your booking. Reference: '' @ r)]\<rparr>"


text \<open>
  Two answers of the model: one whose restaurant is the empty string and whose party size
  is zero, and one that mentions only a time.
\<close>

definition empty_values :: BookingInfo where
  "empty_values =
     \<lparr>info_restaurant_name = Some [], info_date = None, info_time = None,
      info_party_size = Some 0, info_customer_name = None, info_phone = None,
      response_message = ''How many people will be joining?''\<rparr>"

definition time_only :: BookingInfo where
  "time_only = (no_info ''Got it, 8pm.'')\<lparr>info_time := Some ''20:00''\<rparr>"

text \<open>
  A completed session that is invoked again: the model extracts a new restaurant, the
  summary is shown again, and a further yes books a second time.
\<close>

definition changes_restaurant :: BookingInfo where
  "changes_restaurant = (no_info ''Sure.'')\<lparr>info_restaurant_name := Some ''Luigi's''\<rparr>"

definition reopened_state :: BookingState where
  "reopened_state =
     completed_state
       \<lparr>messages := messages completed_state
          @ [(Human, ''Actually, make it Luigi's''), (AI, ''Sure.''),
             (AI, confirmation_message (completed_state\<lparr>restaurant_name := Some ''Luigi's''\<rparr>))],
        restaurant_name := Some ''Luigi's'',
        all_info_collected := True, awaiting_confirmation := True\<rparr>"

definition rebooked_state :: BookingState where
  "rebooked_state =
     reopened_state
       \<lparr>messages := messages reopened_state
          @ [(Human, ''yes''),
             (AI, ''Perfect! I've created your booking. Reference: BK-99999''),
             (AI, ''I've sent a confirmation SMS to your phone. Your booking is all set!'')],
        user_confirmed := True, awaiting_confirmation := False,
        booking_ref := Some ''BK-99999'', conversation_complete := True\<rparr>"

text \<open>
  A session of two turns: the user gives all six details at once, then confirms; the
  booking and the notification succeed.
\<close>

definition all_fields :: BookingInfo where
  "all_fields =
     \<lparr>info_restaurant_name = Some ''Mario's'', info_date = Some ''2025-12-01'',
      info_time = Some ''19:00'', info_party_size = Some 4,
      info_customer_name = Some ''John Smith'', info_phone = Some ''555-1234'',
      response_message = ''Thank you, I have everything I need.''\<rparr>"

definition sample_session :: "(adapters \<times> string) list" where
  "sample_session =
     [(scripted all_fields says_yes [] [],
       ''Mario's on 2025-12-01 at 19:00 for 4, John Smith, 555-1234''),
      (scripted (no_info []) says_yes [booked ''BK-12345''] [True], ''yes'')]"

text \<open>The reference in the state, if any, is the reference of a logged successful call.\<close>

definition ref_is_committed :: "BookingState \<Rightarrow> world \<Rightarrow> bool" where
  "ref_is_committed s w =
     (booking_ref s \<noteq> None \<longrightarrow>
        (\<exists>(a, r) \<in> set (booking_calls w). success r \<and> result_ref r = booking_ref s))"

section \<open>Unfolding the engine, node by node\<close>

lemma apply_updates_Nil [simp]: "apply_updates [] s = s"
  by (simp add: apply_updates_def)

lemma apply_updates_Cons [simp]: "apply_updates (u # us) s = apply_updates us (apply_update u s)"
  by (simp add: apply_updates_def)

lemma apply_updates_append [simp]:
  "apply_updates (us @ vs) s = apply_updates vs (apply_updates us s)"
  by (simp add: apply_updates_def)

lemma follow_Nil [simp]: "follow [] l = Inl KeyError"
  by (simp add: follow_def)

lemma follow_Cons [simp]: "follow ((k, t) # pm) l = (if k = l then Inr t else follow pm l)"
  by (simp add: follow_def)

lemma run_from_Confirm: "run_from A Confirm s w = Inr (apply_updates (confirm_node s) s, w)"
  by (simp add: run_from.simps[of A Confirm])

lemma run_from_Handle_sms_error:
  "run_from A Handle_sms_error s w = Inr (apply_updates (handle_sms_error_node s) s, w)"
  by (simp add: run_from.simps[of A Handle_sms_error])

lemma run_from_Handle_booking_error:
  "run_from A Handle_booking_error s w =
     Inr (apply_updates (fst (handle_booking_error_node A s w)) s,
          snd (handle_booking_error_node A s w))"
  by (simp add: run_from.simps[of A Handle_booking_error] split: prod.splits)

lemma run_from_Send_sms:
  "run_from A Send_sms s w =
     (let s' = apply_updates (fst (send_sms_node A s w)) s; w' = snd (send_sms_node A s w)
      in case check_sms_success s' of
           Inl e \<Rightarrow> Inl e
         | Inr label \<Rightarrow>
             if label = END then Inr (s', w')
             else if label = ''handle_sms_error'' then run_from A Handle_sms_error s' w'
             else Inl KeyError)"
  by (simp add: run_from.simps[of A Send_sms] Let_def split: prod.splits sum.splits)

lemma run_from_Create_booking:
  "run_from A Create_booking s w =
     (let s' = apply_updates (fst (create_booking_node A s w)) s;
          w' = snd (create_booking_node A s w)
      in if truthy_str (booking_ref s') then run_from A Send_sms s' w'
         else run_from A Handle_booking_error s' w')"
  by (simp add: run_from.simps[of A Create_booking] Let_def check_booking_success_def
           split: prod.splits)

lemma run_from_Handle_confirmation:
  "run_from A Handle_confirmation s w =
     (let s' = apply_updates (handle_confirmation_node A s) s
      in if user_confirmed s' then run_from A Create_booking s' w else Inr (s', w))"
  by (simp add: run_from.simps[of A Handle_confirmation] Let_def check_confirmation_routing_def)

lemma run_from_Collect_info:
  "run_from A Collect_info s w =
     (let s' = apply_updates (collect_info_node A s) s
      in if should_continue_collecting s' = ''confirm'' then run_from A Confirm s' w
         else Inr (s', w))"
  by (simp add: run_from.simps[of A Collect_info] Let_def should_continue_collecting_def)

lemma run_from_Router:
  "run_from A Router s w =
     (if awaiting_confirmation s then run_from A Handle_confirmation s w
      else run_from A Collect_info s w)"
  by (simp add: run_from.simps[of A Router] router_node_def)

section \<open>Completion gating\<close>

text \<open>
  Claim C6. For every combination of absent and present values of the six fields, the
  routing function after collection answers \<^verbatim>\<open>confirm\<close> if and only if all six fields are
  not \<^verbatim>\<open>None\<close>, and \<^verbatim>\<open>collect\<close> as soon as one of them is; the edge then leads to the
  summary node in the first case and ends the run in the second.
\<close>

theorem should_continue_collecting_iff:
  "(should_continue_collecting s = ''confirm'' \<longleftrightarrow>
      restaurant_name s \<noteq> None \<and> date s \<noteq> None \<and> time s \<noteq> None \<and> party_size s \<noteq> None
      \<and> customer_name s \<noteq> None \<and> phone s \<noteq> None)
   \<and> (should_continue_collecting s = ''collect'' \<longleftrightarrow>
      restaurant_name s = None \<or> date s = None \<or> time s = None \<or> party_size s = None
      \<or> customer_name s = None \<or> phone s = None)
   \<and> next_node Collect_info s =
      (if restaurant_name s \<noteq> None \<and> date s \<noteq> None \<and> time s \<noteq> None \<and> party_size s \<noteq> None
          \<and> customer_name s \<noteq> None \<and> phone s \<noteq> None
       then Inr (Some Confirm) else Inr None)"
  by (simp add: should_continue_collecting_def)

theorem should_continue_collecting_iff_witness:
  "should_continue_collecting sample_state = ''confirm''
   \<and> should_continue_collecting (sample_state\<lparr>phone := None\<rparr>) = ''collect''
   \<and> should_continue_collecting initial_state = ''collect''"
  using should_continue_collecting_iff [of sample_state]
    should_continue_collecting_iff [of "sample_state\<lparr>phone := None\<rparr>"]
    should_continue_collecting_iff [of initial_state]
  by (simp add: sample_state_def initial_state_def)

section \<open>The decision node on a rejection\<close>

lemma handle_confirmation_rejected:
  assumes "\<not> user_wants_to_proceed (interpret_confirmation A (messages s))"
  shows "awaiting_confirmation (apply_updates (handle_confirmation_node A s) s) = False"
    and "user_confirmed (apply_updates (handle_confirmation_node A s) s) = False"
  using assms by (simp_all add: handle_confirmation_node_def Let_def)

text \<open>
  Claim C7. Whatever the state before, and whatever the text that comes with it, a
  classification that does not proceed leaves \<^verbatim>\<open>awaiting_confirmation\<close> and
  \<^verbatim>\<open>user_confirmed\<close> false after the decision node; the run ends there without a service
  call, and the router sends the next user turn to the collection node.
\<close>

theorem rejection_returns_to_collection:
  assumes "\<not> user_wants_to_proceed (interpret_confirmation A (messages s))"
  defines "s' \<equiv> apply_updates (handle_confirmation_node A s) s"
  shows "\<not> awaiting_confirmation s' \<and> \<not> user_confirmed s'
         \<and> check_confirmation_routing s' = ''collect''
         \<and> run_from A Handle_confirmation s w = Inr (s', w)
         \<and> router_node (s'\<lparr>messages := messages s' @ [(Human, reply)]\<rparr>) = ''collect_info''
         \<and> next_node Router (s'\<lparr>messages := messages s' @ [(Human, reply)]\<rparr>)
             = Inr (Some Collect_info)"
  using assms
  by (simp add: handle_confirmation_rejected run_from_Handle_confirmation Let_def
        check_confirmation_routing_def router_node_def)

theorem rejection_returns_to_collection_witness:
  "\<not> user_wants_to_proceed
       (interpret_confirmation
          (scripted (no_info []) (says_no (Some ''Which time would you like instead?'')) [] [])
          (messages (sample_state\<lparr>user_confirmed := True\<rparr>)))
   \<and> awaiting_confirmation (sample_state\<lparr>user_confirmed := True\<rparr>)
   \<and> user_confirmed (sample_state\<lparr>user_confirmed := True\<rparr>)
   \<and> \<not> awaiting_confirmation
         (apply_updates
            (handle_confirmation_node
               (scripted (no_info []) (says_no (Some ''Which time would you like instead?'')) [] [])
               (sample_state\<lparr>user_confirmed := True\<rparr>))
            (sample_state\<lparr>user_confirmed := True\<rparr>))
   \<and> \<not> user_confirmed
         (apply_updates
            (handle_confirmation_node
               (scripted (no_info []) (says_no (Some ''Which time would you like instead?'')) [] [])
               (sample_state\<lparr>user_confirmed := True\<rparr>))
            (sample_state\<lparr>user_confirmed := True\<rparr>))"
  using rejection_returns_to_collection
          [of "scripted (no_info []) (says_no (Some ''Which time would you like instead?'')) [] []"
              "sample_state\<lparr>user_confirmed := True\<rparr>"]
  by (simp add: scripted_def says_no_def sample_state_def)

text \<open>
  Claim C10. When the classifier does not proceed and gives no change request (\<^verbatim>\<open>None\<close>
  or the empty string), the decision node sets both flags to false and adds no message:
  the run ends with the history as it was, so the caller gets no new assistant text.
\<close>

theorem rejection_without_text_is_silent:
  assumes "\<not> user_wants_to_proceed (interpret_confirmation A (messages s))"
    and "requested_changes (interpret_confirmation A (messages s)) = None
         \<or> requested_changes (interpret_confirmation A (messages s)) = Some []"
  defines "s' \<equiv> apply_updates (handle_confirmation_node A s) s"
  shows "s' = s\<lparr>user_confirmed := False, awaiting_confirmation := False\<rparr>
         \<and> messages s' = messages s
         \<and> run_from A Handle_confirmation s w = Inr (s', w)
         \<and> (awaiting_confirmation s \<longrightarrow> invoke A s w = Inr (s', w))"
proof -
  have upd: "handle_confirmation_node A s
               = [Set_user_confirmed False, Set_awaiting_confirmation False]"
    using assms(1,2) by (auto simp: handle_confirmation_node_def Let_def truthy_str_def)
  then have eq: "s' = s\<lparr>user_confirmed := False, awaiting_confirmation := False\<rparr>"
    by (simp add: s'_def)
  have run: "run_from A Handle_confirmation s w = Inr (s', w)"
    by (simp add: run_from_Handle_confirmation Let_def upd s'_def)
  show ?thesis
    using eq run by (simp add: invoke_def run_from_Router)
qed

theorem rejection_without_text_is_silent_witness:
  "\<not> user_wants_to_proceed
       (interpret_confirmation (scripted (no_info []) (says_no None) [] [])
          (messages sample_state))
   \<and> invoke (scripted (no_info []) (says_no None) [] []) sample_state no_calls
       = Inr (sample_state\<lparr>user_confirmed := False, awaiting_confirmation := False\<rparr>, no_calls)
   \<and> invoke (scripted (no_info []) (says_no (Some [])) [] []) sample_state no_calls
       = Inr (sample_state\<lparr>user_confirmed := False, awaiting_confirmation := False\<rparr>, no_calls)"
  using rejection_without_text_is_silent
          [of "scripted (no_info []) (says_no None) [] []" sample_state no_calls]
        rejection_without_text_is_silent
          [of "scripted (no_info []) (says_no (Some [])) [] []" sample_state no_calls]
  by (simp add: scripted_def says_no_def sample_state_def)

section \<open>The commit nodes\<close>

lemma create_booking_node_failed:
  assumes "\<not> success (create_booking A (length (booking_calls w)) (booking_args_of s))"
  shows "create_booking_node A s w =
           ([Set_booking_ref None],
            w\<lparr>booking_calls := booking_calls w
                 @ [(booking_args_of s,
                     create_booking A (length (booking_calls w)) (booking_args_of s))]\<rparr>)"
  using assms by (simp add: create_booking_node_def call_create_booking_def Let_def)

lemma create_booking_node_succeeded:
  assumes "success (create_booking A (length (booking_calls w)) (booking_args_of s))"
  shows "create_booking_node A s w =
           ([Set_booking_ref
               (result_ref (create_booking A (length (booking_calls w)) (booking_args_of s))),
             Add_messages
               [(AI, ''Perfect! I've created your booking. Reference: ''
                     @ fmt_str (result_ref
                         (create_booking A (length (booking_calls w)) (booking_args_of s))))]],
            w\<lparr>booking_calls := booking_calls w
                 @ [(booking_args_of s,
                     create_booking A (length (booking_calls w)) (booking_args_of s))]\<rparr>)"
  using assms by (simp add: create_booking_node_def call_create_booking_def Let_def)


lemma handle_booking_error_node_succeeded:
  assumes "success (create_booking A (length (booking_calls w)) (booking_args_of s))"
  shows "handle_booking_error_node A s w =
           ([Set_booking_ref
               (result_ref (create_booking A (length (booking_calls w)) (booking_args_of s))),
             Add_messages
               [(AI, ''Success! Your booking has been created. Reference: ''
                     @ fmt_str (result_ref
                         (create_booking A (length (booking_calls w)) (booking_args_of s))))]],
            w\<lparr>booking_calls := booking_calls w
                 @ [(booking_args_of s,
                     create_booking A (length (booking_calls w)) (booking_args_of s))]\<rparr>)"
  using assms by (simp add: handle_booking_error_node_def call_create_booking_def Let_def)

lemma booking_args_of_booking_ref [simp]:
  "booking_args_of (s\<lparr>booking_ref := r\<rparr>) = booking_args_of s"
  by (simp add: booking_args_of_def)

lemma booking_error_message_booking_ref [simp]:
  "booking_error_message (s\<lparr>booking_ref := r\<rparr>) = booking_error_message s"
  by (simp add: booking_error_message_def)

lemma handle_confirmation_accepted:
  assumes "user_wants_to_proceed (interpret_confirmation A (messages s))"
  shows "apply_updates (handle_confirmation_node A s) s
           = s\<lparr>user_confirmed := True, awaiting_confirmation := False\<rparr>"
  using assms by (simp add: handle_confirmation_node_def Let_def)

lemma booking_error_message_flags [simp]:
  "booking_error_message (s\<lparr>user_confirmed := a, awaiting_confirmation := b\<rparr>)
     = booking_error_message s"
  by (simp add: booking_error_message_def)

lemma booking_args_of_flags [simp]:
  "booking_args_of (s\<lparr>user_confirmed := a, awaiting_confirmation := b\<rparr>) = booking_args_of s"
  by (simp add: booking_args_of_def)


lemma invoke_proceed:
  assumes "awaiting_confirmation s"
    and "user_wants_to_proceed (interpret_confirmation A (messages s))"
  shows "invoke A s w
           = run_from A Create_booking (s\<lparr>user_confirmed := True, awaiting_confirmation := False\<rparr>) w"
  using assms
  by (simp add: invoke_def run_from_Router run_from_Handle_confirmation
        handle_confirmation_accepted Let_def)



section \<open>A retry that succeeds\<close>

lemma run_from_Create_booking_retry_success:
  fixes A :: adapters and s :: BookingState and w :: world
  assumes f1: "\<not> success (create_booking A (length (booking_calls w)) (booking_args_of s))"
    and f2: "success (create_booking A (Suc (length (booking_calls w))) (booking_args_of s))"
  shows "run_from A Create_booking s w =
           Inr (s\<lparr>booking_ref :=
                    result_ref (create_booking A (Suc (length (booking_calls w)))
                                  (booking_args_of s)),
                  messages := messages s
                    @ [(AI, ''Success! Your booking has been created. Reference: ''
                            @ fmt_str (result_ref (create_booking A (Suc (length (booking_calls w)))
                                                     (booking_args_of s))))]\<rparr>,
                w\<lparr>booking_calls := booking_calls w
                     @ [(booking_args_of s,
                         create_booking A (length (booking_calls w)) (booking_args_of s)),
                        (booking_args_of s,
                         create_booking A (Suc (length (booking_calls w)))
                           (booking_args_of s))]\<rparr>)"
proof -
  let ?w1 = "w\<lparr>booking_calls := booking_calls w
                @ [(booking_args_of s,
                    create_booking A (length (booking_calls w)) (booking_args_of s))]\<rparr>"
  have f2': "success (create_booking A (length (booking_calls ?w1))
                           (booking_args_of (s\<lparr>booking_ref := None\<rparr>)))"
    using f2 by simp
  have "run_from A Create_booking s w
          = run_from A Handle_booking_error (s\<lparr>booking_ref := None\<rparr>) ?w1"
    by (simp add: run_from_Create_booking create_booking_node_failed [OF f1] Let_def
          truthy_str_def)
  also have "\<dots> = Inr (s\<lparr>booking_ref :=
                    result_ref (create_booking A (Suc (length (booking_calls w)))
                                  (booking_args_of s)),
                  messages := messages s
                    @ [(AI, ''Success! Your booking has been created. Reference: ''
                            @ fmt_str (result_ref (create_booking A (Suc (length (booking_calls w)))
                                                     (booking_args_of s))))]\<rparr>,
                w\<lparr>booking_calls := booking_calls w
                     @ [(booking_args_of s,
                         create_booking A (length (booking_calls w)) (booking_args_of s)),
                        (booking_args_of s,
                         create_booking A (Suc (length (booking_calls w)))
                           (booking_args_of s))]\<rparr>)"
    unfolding run_from_Handle_booking_error handle_booking_error_node_succeeded [OF f2']
    by simp
  finally show ?thesis .
qed

text \<open>
  Claim C1 says that after a failed first call and a successful retry the session goes on
  to the notification node as it does after a successful first call. The graph has one
  edge out of the recovery node, to \<^verbatim>\<open>END\<close>: the run below stores the reference and the
  success message and returns, with no call of \<^verbatim>\<open>send_sms\<close> and \<^verbatim>\<open>conversation_complete\<close>
  as it was.
\<close>

theorem retry_success_ends_the_run_without_notification:
  fixes A :: adapters and s :: BookingState and w :: world
  assumes waiting: "awaiting_confirmation s"
    and proceed: "user_wants_to_proceed (interpret_confirmation A (messages s))"
    and first_fails:
      "\<not> success (create_booking A (length (booking_calls w)) (booking_args_of s))"
    and retry_succeeds:
      "success (create_booking A (Suc (length (booking_calls w))) (booking_args_of s))"
  defines "args \<equiv> booking_args_of s"
  defines "first \<equiv> create_booking A (length (booking_calls w)) args"
  defines "retry \<equiv> create_booking A (Suc (length (booking_calls w))) args"
  defines "w' \<equiv> w\<lparr>booking_calls := booking_calls w @ [(args, first), (args, retry)]\<rparr>"
  defines "s' \<equiv> s\<lparr>user_confirmed := True, awaiting_confirmation := False,
                    booking_ref := result_ref retry,
                    messages := messages s
                      @ [(AI, ''Success! Your booking has been created. Reference: ''
                              @ fmt_str (result_ref retry))]\<rparr>"
  shows "invoke A s w = Inr (s', w')
         \<and> sms_calls w' = sms_calls w
         \<and> conversation_complete s' = conversation_complete s"
proof -
  let ?s0 = "s\<lparr>user_confirmed := True, awaiting_confirmation := False\<rparr>"
  have f1: "\<not> success (create_booking A (length (booking_calls w)) (booking_args_of ?s0))"
    using first_fails by simp
  have f2: "success (create_booking A (Suc (length (booking_calls w))) (booking_args_of ?s0))"
    using retry_succeeds by simp
  have "invoke A s w = Inr (s', w')"
    unfolding invoke_proceed [OF waiting proceed]
      run_from_Create_booking_retry_success [OF f1 f2]
    by (simp add: s'_def w'_def args_def first_def retry_def)
  then show ?thesis
    by (simp add: s'_def w'_def)
qed

theorem retry_success_ends_the_run_without_notification_witness:
  "invoke (scripted (no_info []) says_yes [refused, booked ''BK-67890''] [True])
      sample_state no_calls
     = Inr (sample_state
              \<lparr>user_confirmed := True, awaiting_confirmation := False,
                booking_ref := Some ''BK-67890'',
                messages := [(Human, ''yes''),
                   (AI, ''Success! Your booking has been created. Reference: BK-67890'')]\<rparr>,
            \<lparr>booking_calls =
               [(booking_args_of sample_state, refused),
                (booking_args_of sample_state, booked ''BK-67890'')],
             sms_calls = []\<rparr>)
   \<and> \<not> conversation_complete sample_state"
  using retry_success_ends_the_run_without_notification
          [of sample_state "scripted (no_info []) says_yes [refused, booked ''BK-67890''] [True]"
              no_calls]
  by (simp add: scripted_def says_yes_def sample_state_def no_calls_def refused_def booked_def
        fmt_str_def)

section \<open>Substrings and decimal numerals\<close>

text \<open>\<open>contains\<close> is the substring relation, and a decimal numeral has only digits.\<close>

lemma starts_with_iff: "starts_with s p \<longleftrightarrow> (\<exists>b. s = p @ b)"
  by (induction s p rule: starts_with.induct) auto

lemma contains_iff: "contains s p \<longleftrightarrow> (\<exists>a b. s = a @ p @ b)"
proof (induction s)
  case Nil
  then show ?case by auto
next
  case (Cons c cs)
  show ?case
  proof
    assume "contains (c # cs) p"
    then consider "starts_with (c # cs) p" | "contains cs p" by auto
    then show "\<exists>a b. c # cs = a @ p @ b"
    proof cases
      case 1
      then obtain b where "c # cs = p @ b" by (auto simp: starts_with_iff)
      then have "c # cs = [] @ p @ b" by simp
      then show ?thesis by blast
    next
      case 2
      then obtain a b where "cs = a @ p @ b" using Cons.IH by auto
      then have "c # cs = (c # a) @ p @ b" by simp
      then show ?thesis by blast
    qed
  next
    assume "\<exists>a b. c # cs = a @ p @ b"
    then obtain a b where ab: "c # cs = a @ p @ b" by auto
    show "contains (c # cs) p"
    proof (cases a)
      case Nil
      then have "starts_with (c # cs) p" using ab by (auto simp: starts_with_iff)
      then show ?thesis by simp
    next
      case (Cons x xs)
      then have "cs = xs @ p @ b" using ab by simp
      then have "contains cs p" using Cons.IH by blast
      then show ?thesis by simp
    qed
  qed
qed



lemma contains_set: "contains s p \<Longrightarrow> set p \<subseteq> set s"
  unfolding contains_iff by auto

lemma digit_chars: "k < 10 \<Longrightarrow> ''0123456789'' ! k \<in> set ''0123456789''"
  by (rule nth_mem) simp

lemma set_str_nat: "set (str_nat n) \<subseteq> set ''0123456789''"
proof (induction n rule: str_nat.induct)
  case (1 n)
  show ?case
  proof (cases "n < 10")
    case True
    have "str_nat n = [''0123456789'' ! n]"
      using True by (subst str_nat.simps) (simp only: if_True)
    then show ?thesis
      using digit_chars [OF True] by (simp only: set_simps insert_subset empty_subsetI simp_thms)
  next
    case False
    have m: "n mod 10 < 10" by simp
    have "str_nat n = str_nat (n div 10) @ [''0123456789'' ! (n mod 10)]"
      using False by (subst str_nat.simps) (simp only: if_False)
    then show ?thesis
      using "1.IH" [OF False] digit_chars [OF m]
      by (simp only: set_append set_simps Un_subset_iff insert_subset empty_subsetI simp_thms)
  qed
qed


lemma capital_M_not_in_str_int: "CHR ''M'' \<notin> set (str_int k)"
proof
  assume "CHR ''M'' \<in> set (str_int k)"
  then have "CHR ''M'' \<in> insert CHR ''-'' (set (str_nat (nat \<bar>k\<bar>)))"
    by (simp add: str_int_def split: if_splits)
  then have "CHR ''M'' \<in> set (str_nat (nat \<bar>k\<bar>))"
    by simp
  then have "CHR ''M'' \<in> set ''0123456789''"
    using set_str_nat by blast
  then show False
    by simp
qed

lemma mock_reference_message_has_no_phrase:
  "\<not> contains (''Perfect! I've created your booking. Reference: '' @ ''BK-'' @ str_int k)
       ''sent a confirmation SMS''"
proof
  assume "contains (''Perfect! I've created your booking. Reference: '' @ ''BK-'' @ str_int k)
            ''sent a confirmation SMS''"
  then have "set ''sent a confirmation SMS''
               \<subseteq> set (''Perfect! I've created your booking. Reference: '' @ ''BK-'' @ str_int k)"
    by (rule contains_set)
  moreover have "CHR ''M'' \<in> set ''sent a confirmation SMS''"
    by simp
  ultimately have "CHR ''M''
      \<in> set (''Perfect! I've created your booking. Reference: '' @ ''BK-'' @ str_int k)"
    by blast
  then have "CHR ''M'' \<in> set (str_int k)"
    by simp
  then show False
    using capital_M_not_in_str_int by blast
qed

section \<open>The notification node and its edge\<close>

lemma send_sms_node_sent:
  assumes "send_sms A (length (sms_calls w)) (phone s) (sms_message s)"
  shows "send_sms_node A s w =
           ([Add_messages
               [(AI, ''I've sent a confirmation SMS to your phone. Your booking is all set!'')],
             Set_conversation_complete True],
            w\<lparr>sms_calls := sms_calls w @ [((phone s, sms_message s), True)]\<rparr>)"
  using assms by (simp add: send_sms_node_def call_send_sms_def Let_def)

lemma send_sms_node_failed:
  assumes "\<not> send_sms A (length (sms_calls w)) (phone s) (sms_message s)"
  shows "send_sms_node A s w =
           ([], w\<lparr>sms_calls := sms_calls w @ [((phone s, sms_message s), False)]\<rparr>)"
  using assms by (simp add: send_sms_node_def call_send_sms_def Let_def)

lemma sent_message_has_phrase:
  "contains ''I've sent a confirmation SMS to your phone. Your booking is all set!''
     ''sent a confirmation SMS''"
  by simp

lemma END_neq [simp]: "END \<noteq> ''handle_sms_error''" "''handle_sms_error'' \<noteq> END"
  by (simp_all add: END_def)

lemma next_node_Send_sms:
  "next_node Send_sms s =
     (if messages s = [] then Inl IndexError
      else if contains (snd (last (messages s))) ''sent a confirmation SMS'' then Inr None
      else Inr (Some Handle_sms_error))"
  by (simp add: check_sms_success_def Let_def)


lemma next_node_Send_sms_reads_messages:
  "messages t = messages s \<Longrightarrow> next_node Send_sms t = next_node Send_sms s"
  by (simp add: check_sms_success_def)

text \<open>
  Claim C3, as amended. After the notification node the edge reads the text of the last
  message, not the result of the call: the run ends if and only if that text contains
  \<^verbatim>\<open>sent a confirmation SMS\<close>. A successful call appends such a message and sets
  \<^verbatim>\<open>conversation_complete\<close>, so success always ends the run. A failed call changes
  nothing, so the edge decides on the message that was last before the node ran: the run
  goes to the notification-error node exactly when that message lacks the phrase, which
  holds for the booking message with a reference of the mock service (\<^verbatim>\<open>BK-\<close> and a
  decimal number), and it raises \<^verbatim>\<open>IndexError\<close> on an empty history.
\<close>

theorem notification_routing_reads_the_last_message:
  fixes A :: adapters and s :: BookingState and w :: world
  defines "sent \<equiv> send_sms A (length (sms_calls w)) (phone s) (sms_message s)"
  defines "s' \<equiv> apply_updates (fst (send_sms_node A s w)) s"
  shows "next_node Send_sms s' =
           (if sent then Inr None
            else if messages s = [] then Inl IndexError
            else if contains (snd (last (messages s))) ''sent a confirmation SMS'' then Inr None
            else Inr (Some Handle_sms_error))
         \<and> (sent \<longrightarrow> conversation_complete s')
         \<and> (\<not> sent \<longrightarrow> s' = s)
         \<and> (\<forall>t. messages t = messages s' \<longrightarrow> next_node Send_sms t = next_node Send_sms s')
         \<and> (\<not> sent \<and> messages s \<noteq> []
              \<and> snd (last (messages s))
                  = ''Perfect! I've created your booking. Reference: '' @ ''BK-'' @ str_int k
              \<longrightarrow> next_node Send_sms s' = Inr (Some Handle_sms_error))"
proof -
  have reads: "\<forall>t. messages t = messages s' \<longrightarrow> next_node Send_sms t = next_node Send_sms s'"
    using next_node_Send_sms_reads_messages by blast
  have on_success: "next_node Send_sms s' = Inr None \<and> conversation_complete s'" if sent
  proof -
    have "send_sms_node A s w =
             ([Add_messages
                 [(AI, ''I've sent a confirmation SMS to your phone. Your booking is all set!'')],
               Set_conversation_complete True],
              w\<lparr>sms_calls := sms_calls w @ [((phone s, sms_message s), True)]\<rparr>)"
      using that unfolding sent_def by (rule send_sms_node_sent)
    then have s': "s' = s\<lparr>messages := messages s
         @ [(AI, ''I've sent a confirmation SMS to your phone. Your booking is all set!'')],
         conversation_complete := True\<rparr>"
      by (simp add: s'_def)
    have "next_node Send_sms s' = Inr None"
      unfolding next_node_Send_sms s' using sent_message_has_phrase
      by (simp del: contains.simps starts_with.simps)
    then show ?thesis
      by (simp add: s' del: next_node.simps)
  qed
  have on_failure: "s' = s" if "\<not> sent"
  proof -
    have "send_sms_node A s w =
             ([], w\<lparr>sms_calls := sms_calls w @ [((phone s, sms_message s), False)]\<rparr>)"
      using that unfolding sent_def by (rule send_sms_node_failed)
    then show ?thesis
      by (simp add: s'_def)
  qed
  have route: "next_node Send_sms s' =
           (if sent then Inr None
            else if messages s = [] then Inl IndexError
            else if contains (snd (last (messages s))) ''sent a confirmation SMS'' then Inr None
            else Inr (Some Handle_sms_error))"
  proof (cases sent)
    case True
    then show ?thesis using on_success by (simp del: next_node.simps)
  next
    case False
    then show ?thesis
      using on_failure next_node_Send_sms [of s] by (simp del: next_node.simps)
  qed
  have mock: "next_node Send_sms s' = Inr (Some Handle_sms_error)"
    if "\<not> sent" "messages s \<noteq> []"
      "snd (last (messages s))
         = ''Perfect! I've created your booking. Reference: '' @ ''BK-'' @ str_int k"
  proof -
    have "\<not> contains (snd (last (messages s))) ''sent a confirmation SMS''"
      unfolding that(3) by (rule mock_reference_message_has_no_phrase)
    then show ?thesis
      unfolding route using that(1,2) by (simp only: if_False)
  qed
  show ?thesis
    using route on_success on_failure reads mock by blast
qed

lemma run_from_Send_sms_sent:
  assumes "send_sms A (length (sms_calls w)) (phone s) (sms_message s)"
  shows "run_from A Send_sms s w =
           Inr (s\<lparr>messages := messages s
                    @ [(AI, ''I've sent a confirmation SMS to your phone. Your booking is all set!'')],
                  conversation_complete := True\<rparr>,
                w\<lparr>sms_calls := sms_calls w @ [((phone s, sms_message s), True)]\<rparr>)"
proof -
  have "check_sms_success
          (s\<lparr>messages := messages s
               @ [(AI, ''I've sent a confirmation SMS to your phone. Your booking is all set!'')],
             conversation_complete := True\<rparr>) = Inr END"
    unfolding check_sms_success_def using sent_message_has_phrase
    by (simp del: contains.simps starts_with.simps)
  then show ?thesis
    unfolding run_from_Send_sms send_sms_node_sent [OF assms]
    by (simp del: contains.simps starts_with.simps)
qed

lemma run_from_Send_sms_failed:
  assumes "\<not> send_sms A (length (sms_calls w)) (phone s) (sms_message s)"
    and "messages s \<noteq> []"
  shows "run_from A Send_sms s w =
           (if contains (snd (last (messages s))) ''sent a confirmation SMS''
            then Inr (s, w\<lparr>sms_calls := sms_calls w @ [((phone s, sms_message s), False)]\<rparr>)
            else Inr (s\<lparr>messages := messages s @ [(AI, sms_error_message s)],
                        conversation_complete := True\<rparr>,
                      w\<lparr>sms_calls := sms_calls w @ [((phone s, sms_message s), False)]\<rparr>))"
  unfolding run_from_Send_sms send_sms_node_failed [OF assms(1)]
  using assms(2)
  by (simp add: check_sms_success_def Let_def run_from_Handle_sms_error handle_sms_error_node_def)


lemma sms_message_messages [simp]:
  "sms_message (s\<lparr>messages := ms\<rparr>) = sms_message s"
  by (simp add: sms_message_def)

lemma sms_error_message_messages [simp]:
  "sms_error_message (s\<lparr>messages := ms\<rparr>) = sms_error_message s"
  by (simp add: sms_error_message_def)

lemma run_from_Create_booking_succeeded:
  fixes A :: adapters and s :: BookingState and w :: world
  defines "result \<equiv> create_booking A (length (booking_calls w)) (booking_args_of s)"
  defines "s1 \<equiv> s\<lparr>booking_ref := result_ref result,
                    messages := messages s
                      @ [(AI, ''Perfect! I've created your booking. Reference: ''
                              @ fmt_str (result_ref result))]\<rparr>"
  assumes ok: "success result" and ref: "truthy_str (result_ref result)"
  shows "run_from A Create_booking s w
           = run_from A Send_sms s1
               (w\<lparr>booking_calls := booking_calls w @ [(booking_args_of s, result)]\<rparr>)"
proof -
  have ok': "success (create_booking A (length (booking_calls w)) (booking_args_of s))"
    using ok by (simp add: result_def)
  show ?thesis
    unfolding run_from_Create_booking create_booking_node_succeeded [OF ok']
    using ref by (simp add: Let_def s1_def result_def)
qed

text \<open>
  The path of a successful first attempt, for comparison with the retry: the run goes on
  to the notification node and, when the notification is sent, ends with
  \<^verbatim>\<open>conversation_complete\<close> true.
\<close>

lemma first_attempt_success_notifies:
  fixes A :: adapters and s :: BookingState and w :: world
  defines "result \<equiv> create_booking A (length (booking_calls w)) (booking_args_of s)"
  defines "s1 \<equiv> s\<lparr>user_confirmed := True, awaiting_confirmation := False,
                    booking_ref := result_ref result,
                    messages := messages s
                      @ [(AI, ''Perfect! I've created your booking. Reference: ''
                              @ fmt_str (result_ref result))]\<rparr>"
  assumes waiting: "awaiting_confirmation s"
    and proceed: "user_wants_to_proceed (interpret_confirmation A (messages s))"
    and ok: "success result"
    and ref: "truthy_str (result_ref result)"
    and sent: "send_sms A (length (sms_calls w)) (phone s) (sms_message s1)"
  shows "invoke A s w =
           Inr (s1\<lparr>messages := messages s1
                     @ [(AI, ''I've sent a confirmation SMS to your phone. Your booking is all set!'')],
                   conversation_complete := True\<rparr>,
                w\<lparr>booking_calls := booking_calls w @ [(booking_args_of s, result)],
                  sms_calls := sms_calls w @ [((phone s, sms_message s1), True)]\<rparr>)"
proof -
  let ?start = "s\<lparr>user_confirmed := True, awaiting_confirmation := False\<rparr>"
  let ?w1 = "w\<lparr>booking_calls := booking_calls w @ [(booking_args_of s, result)]\<rparr>"
  have ok': "success (create_booking A (length (booking_calls w)) (booking_args_of ?start))"
    using ok by (simp add: result_def)
  have ref': "truthy_str (result_ref
      (create_booking A (length (booking_calls w)) (booking_args_of ?start)))"
    using ref by (simp add: result_def)
  have sent': "send_sms A (length (sms_calls ?w1)) (phone s1) (sms_message s1)"
    using sent by (simp add: s1_def)
  have "invoke A s w = run_from A Create_booking ?start w"
    by (rule invoke_proceed [OF waiting proceed])
  also have "\<dots> = run_from A Send_sms s1 ?w1"
    unfolding run_from_Create_booking_succeeded [OF ok' ref']
    by (simp add: s1_def result_def)
  also have "\<dots> = Inr (s1\<lparr>messages := messages s1
                     @ [(AI, ''I've sent a confirmation SMS to your phone. Your booking is all set!'')],
                   conversation_complete := True\<rparr>,
                ?w1\<lparr>sms_calls := sms_calls ?w1 @ [((phone s1, sms_message s1), True)]\<rparr>)"
    by (rule run_from_Send_sms_sent [OF sent'])
  finally show ?thesis
    by (simp add: s1_def)
qed

text \<open>A successful and a failed notification after a booking with a reference of the mock service.\<close>

theorem notification_routing_reads_the_last_message_witness:
  "next_node Send_sms
     (apply_updates
        (fst (send_sms_node (scripted (no_info []) says_yes [] [True])
                (booked_state ''BK-12345'') no_calls))
        (booked_state ''BK-12345'')) = Inr None
   \<and> next_node Send_sms
     (apply_updates
        (fst (send_sms_node (scripted (no_info []) says_yes [] [False])
                (booked_state ''BK-12345'') no_calls))
        (booked_state ''BK-12345'')) = Inr (Some Handle_sms_error)"
  using notification_routing_reads_the_last_message
          [where A = "scripted (no_info []) says_yes [] [True]" and w = no_calls
             and s = "booked_state ''BK-12345''" and k = 12345, THEN conjunct1]
        notification_routing_reads_the_last_message
          [where A = "scripted (no_info []) says_yes [] [False]" and w = no_calls
             and s = "booked_state ''BK-12345''" and k = 12345, THEN conjunct1]
  by (simp add: scripted_def no_calls_def booked_state_def sample_state_def
        del: next_node.simps)

text \<open>
  Claim C3 as stated fails: the booking service answers with a reference that contains
  the phrase, the notification fails, and the edge still ends the run. The session is
  left with \<^verbatim>\<open>conversation_complete\<close> false and without the message of the error node.
\<close>

theorem notification_routing_counterexample:
  "\<not> send_sms (scripted (no_info []) says_yes [booked ''sent a confirmation SMS''] [False]) 0
       (phone (booked_state ''sent a confirmation SMS''))
       (sms_message (booked_state ''sent a confirmation SMS''))
   \<and> next_node Send_sms
        (apply_updates
           (fst (send_sms_node
                   (scripted (no_info []) says_yes [booked ''sent a confirmation SMS''] [False])
                   (booked_state ''sent a confirmation SMS'')
                   \<lparr>booking_calls =
                      [(booking_args_of sample_state, booked ''sent a confirmation SMS'')],
                    sms_calls = []\<rparr>))
           (booked_state ''sent a confirmation SMS'')) = Inr None
   \<and> invoke (scripted (no_info []) says_yes [booked ''sent a confirmation SMS''] [False])
        sample_state no_calls
       = Inr (booked_state ''sent a confirmation SMS'',
              \<lparr>booking_calls =
                 [(booking_args_of sample_state, booked ''sent a confirmation SMS'')],
               sms_calls =
                 [((phone sample_state, sms_message (booked_state ''sent a confirmation SMS'')),
                   False)]\<rparr>)
   \<and> \<not> conversation_complete (booked_state ''sent a confirmation SMS'')"
proof -
  let ?A = "scripted (no_info []) says_yes [booked ''sent a confirmation SMS''] [False]"
  let ?s = "booked_state ''sent a confirmation SMS''"
  let ?w = "\<lparr>booking_calls =
                [(booking_args_of sample_state, booked ''sent a confirmation SMS'')],
              sms_calls = []\<rparr>"
  have failed: "\<not> send_sms ?A 0 (phone ?s) (sms_message ?s)"
    by (simp add: scripted_def)
  have failed': "\<not> send_sms ?A (length (sms_calls ?w)) (phone ?s) (sms_message ?s)"
    by (simp add: scripted_def)
  have last: "messages ?s \<noteq> []
      \<and> contains (snd (last (messages ?s))) ''sent a confirmation SMS''"
    by (simp add: booked_state_def sample_state_def)
  have node: "apply_updates (fst (send_sms_node ?A ?s ?w)) ?s = ?s"
    unfolding send_sms_node_failed [OF failed'] by simp
  have route: "next_node Send_sms ?s = Inr None"
    unfolding next_node_Send_sms using last by (simp only: if_True if_False)
  have sms: "run_from ?A Send_sms ?s ?w
      = Inr (?s, ?w\<lparr>sms_calls := sms_calls ?w @ [((phone ?s, sms_message ?s), False)]\<rparr>)"
    unfolding run_from_Send_sms_failed [OF failed' conjunct1 [OF last]]
    using last by (simp only: if_True)
  have waiting: "awaiting_confirmation sample_state"
    by (simp add: sample_state_def)
  have proceed: "user_wants_to_proceed (interpret_confirmation ?A (messages sample_state))"
    by (simp add: scripted_def says_yes_def)
  let ?start = "sample_state\<lparr>user_confirmed := True, awaiting_confirmation := False\<rparr>"
  have result: "create_booking ?A (length (booking_calls no_calls)) (booking_args_of ?start)
      = booked ''sent a confirmation SMS''"
    by (simp add: scripted_def no_calls_def)
  have ok: "success (create_booking ?A (length (booking_calls no_calls)) (booking_args_of ?start))"
    and ref: "truthy_str (result_ref
        (create_booking ?A (length (booking_calls no_calls)) (booking_args_of ?start)))"
    unfolding result by (simp_all add: booked_def truthy_str_def)
  have "invoke ?A sample_state no_calls = run_from ?A Send_sms ?s ?w"
    unfolding invoke_proceed [OF waiting proceed]
      run_from_Create_booking_succeeded [OF ok ref] result
    by (simp add: booked_state_def booked_def fmt_str_def no_calls_def)
  then have run: "invoke ?A sample_state no_calls
      = Inr (?s, ?w\<lparr>sms_calls := sms_calls ?w @ [((phone ?s, sms_message ?s), False)]\<rparr>)"
    using sms by simp
  have ph: "phone ?s = phone sample_state"
    by (simp add: booked_state_def)
  have "\<not> conversation_complete ?s"
    by (simp add: booked_state_def sample_state_def)
  then show ?thesis
    using failed node route run ph by (simp del: next_node.simps)
qed

section \<open>A notification that fails\<close>


lemma sms_error_message_flags [simp]:
  "sms_error_message (s\<lparr>user_confirmed := a, awaiting_confirmation := b\<rparr>) = sms_error_message s"
  by (simp add: sms_error_message_def)

lemma sms_message_flags [simp]:
  "sms_message (s\<lparr>user_confirmed := a, awaiting_confirmation := b\<rparr>) = sms_message s"
  by (simp add: sms_message_def)





section \<open>Merging extracted fields\<close>

lemma apply_updates_if [simp]:
  "apply_updates (if c then [u] else []) s = (if c then apply_update u s else s)"
  by simp

lemma collect_info_state:
  "apply_updates (collect_info_node A s) s =
     (let r = extract_booking_info A s in
      s\<lparr>messages := messages s @ [(AI, response_message r)],
        restaurant_name :=
          (if truthy_str (info_restaurant_name r) then info_restaurant_name r
           else restaurant_name s),
        date := (if truthy_str (info_date r) then info_date r else date s),
        time := (if truthy_str (info_time r) then info_time r else time s),
        party_size :=
          (if truthy_int (info_party_size r) then info_party_size r else party_size s),
        customer_name :=
          (if truthy_str (info_customer_name r) then info_customer_name r
           else customer_name s),
        phone := (if truthy_str (info_phone r) then info_phone r else phone s)\<rparr>)"
  by (simp add: collect_info_node_def Let_def)


lemma truthy_str_set: "truthy_str x \<Longrightarrow> x \<noteq> None"
  by (cases x) (simp_all add: truthy_str_def)

lemma truthy_int_set: "truthy_int x \<Longrightarrow> x \<noteq> None"
  by (cases x) (simp_all add: truthy_int_def)

lemma truthy_None [simp]: "\<not> truthy_str None" "\<not> truthy_int None"
  by (simp_all add: truthy_str_def truthy_int_def)

lemma collect_sequence_never_clears:
  "restaurant_name s \<noteq> None \<Longrightarrow> restaurant_name (collect_sequence As s) \<noteq> None"
  "date s \<noteq> None \<Longrightarrow> date (collect_sequence As s) \<noteq> None"
  "time s \<noteq> None \<Longrightarrow> time (collect_sequence As s) \<noteq> None"
  "party_size s \<noteq> None \<Longrightarrow> party_size (collect_sequence As s) \<noteq> None"
  "customer_name s \<noteq> None \<Longrightarrow> customer_name (collect_sequence As s) \<noteq> None"
  "phone s \<noteq> None \<Longrightarrow> phone (collect_sequence As s) \<noteq> None"
proof (induction As arbitrary: s)
  case Nil
  {
    case 1 then show ?case by simp
  next
    case 2 then show ?case by simp
  next
    case 3 then show ?case by simp
  next
    case 4 then show ?case by simp
  next
    case 5 then show ?case by simp
  next
    case 6 then show ?case by simp
  }
next
  case (Cons A As)
  {
    case 1
    then have "restaurant_name (apply_updates (collect_info_node A s) s) \<noteq> None"
      by (auto simp: collect_info_state Let_def dest: truthy_str_set)
    then show ?case using Cons.IH(1) by simp
  next
    case 2
    then have "date (apply_updates (collect_info_node A s) s) \<noteq> None"
      by (auto simp: collect_info_state Let_def dest: truthy_str_set)
    then show ?case using Cons.IH(2) by simp
  next
    case 3
    then have "time (apply_updates (collect_info_node A s) s) \<noteq> None"
      by (auto simp: collect_info_state Let_def dest: truthy_str_set)
    then show ?case using Cons.IH(3) by simp
  next
    case 4
    then have "party_size (apply_updates (collect_info_node A s) s) \<noteq> None"
      by (auto simp: collect_info_state Let_def dest: truthy_int_set)
    then show ?case using Cons.IH(4) by simp
  next
    case 5
    then have "customer_name (apply_updates (collect_info_node A s) s) \<noteq> None"
      by (auto simp: collect_info_state Let_def dest: truthy_str_set)
    then show ?case using Cons.IH(5) by simp
  next
    case 6
    then have "phone (apply_updates (collect_info_node A s) s) \<noteq> None"
      by (auto simp: collect_info_state Let_def dest: truthy_str_set)
    then show ?case using Cons.IH(6) by simp
  }
qed

lemma collect_sequence_omitted:
  "\<forall>A \<in> set As. \<forall>t. \<not> truthy_str (info_restaurant_name (extract_booking_info A t))
     \<Longrightarrow> restaurant_name (collect_sequence As s) = restaurant_name s"
  "\<forall>A \<in> set As. \<forall>t. \<not> truthy_str (info_date (extract_booking_info A t))
     \<Longrightarrow> date (collect_sequence As s) = date s"
  "\<forall>A \<in> set As. \<forall>t. \<not> truthy_str (info_time (extract_booking_info A t))
     \<Longrightarrow> time (collect_sequence As s) = time s"
  "\<forall>A \<in> set As. \<forall>t. \<not> truthy_int (info_party_size (extract_booking_info A t))
     \<Longrightarrow> party_size (collect_sequence As s) = party_size s"
  "\<forall>A \<in> set As. \<forall>t. \<not> truthy_str (info_customer_name (extract_booking_info A t))
     \<Longrightarrow> customer_name (collect_sequence As s) = customer_name s"
  "\<forall>A \<in> set As. \<forall>t. \<not> truthy_str (info_phone (extract_booking_info A t))
     \<Longrightarrow> phone (collect_sequence As s) = phone s"
  by (induction As arbitrary: s) (simp_all add: collect_info_state Let_def)

text \<open>
  Claim C8, as amended. The collection node overwrites a stored field with the value of
  the new result when that value is truthy (a non-empty string, a non-zero party size)
  and leaves the stored field untouched otherwise, that is when the new result omits the
  field or carries the empty string or zero for it; it changes nothing else but the
  history. Over any sequence of results a field that is set stays set, and a field that
  no result of the sequence supplies keeps its value.
\<close>

theorem collection_merges_extracted_fields:
  fixes A :: adapters and s :: BookingState and As :: "adapters list"
  shows "apply_updates (collect_info_node A s) s =
           (let r = extract_booking_info A s in
            s\<lparr>messages := messages s @ [(AI, response_message r)],
              restaurant_name :=
                (if truthy_str (info_restaurant_name r) then info_restaurant_name r
                 else restaurant_name s),
              date := (if truthy_str (info_date r) then info_date r else date s),
              time := (if truthy_str (info_time r) then info_time r else time s),
              party_size :=
                (if truthy_int (info_party_size r) then info_party_size r else party_size s),
              customer_name :=
                (if truthy_str (info_customer_name r) then info_customer_name r
                 else customer_name s),
              phone := (if truthy_str (info_phone r) then info_phone r else phone s)\<rparr>)
         \<and> (restaurant_name s \<noteq> None \<longrightarrow> restaurant_name (collect_sequence As s) \<noteq> None)
         \<and> (date s \<noteq> None \<longrightarrow> date (collect_sequence As s) \<noteq> None)
         \<and> (time s \<noteq> None \<longrightarrow> time (collect_sequence As s) \<noteq> None)
         \<and> (party_size s \<noteq> None \<longrightarrow> party_size (collect_sequence As s) \<noteq> None)
         \<and> (customer_name s \<noteq> None \<longrightarrow> customer_name (collect_sequence As s) \<noteq> None)
         \<and> (phone s \<noteq> None \<longrightarrow> phone (collect_sequence As s) \<noteq> None)
         \<and> ((\<forall>A \<in> set As. \<forall>t. \<not> truthy_str (info_restaurant_name (extract_booking_info A t)))
              \<longrightarrow> restaurant_name (collect_sequence As s) = restaurant_name s)
         \<and> ((\<forall>A \<in> set As. \<forall>t. \<not> truthy_str (info_date (extract_booking_info A t)))
              \<longrightarrow> date (collect_sequence As s) = date s)
         \<and> ((\<forall>A \<in> set As. \<forall>t. \<not> truthy_str (info_time (extract_booking_info A t)))
              \<longrightarrow> time (collect_sequence As s) = time s)
         \<and> ((\<forall>A \<in> set As. \<forall>t. \<not> truthy_int (info_party_size (extract_booking_info A t)))
              \<longrightarrow> party_size (collect_sequence As s) = party_size s)
         \<and> ((\<forall>A \<in> set As. \<forall>t. \<not> truthy_str (info_customer_name (extract_booking_info A t)))
              \<longrightarrow> customer_name (collect_sequence As s) = customer_name s)
         \<and> ((\<forall>A \<in> set As. \<forall>t. \<not> truthy_str (info_phone (extract_booking_info A t)))
              \<longrightarrow> phone (collect_sequence As s) = phone s)"
  using collect_info_state [of A s] collect_sequence_never_clears [of s As]
    collect_sequence_omitted [of As s]
  by blast

theorem collection_merges_extracted_fields_witness:
  "restaurant_name
     (collect_sequence
        [scripted time_only says_yes [] [], scripted (no_info ''And the date?'') says_yes [] []]
        (initial_state\<lparr>restaurant_name := Some ''Mario's''\<rparr>)) = Some ''Mario's''
   \<and> time
     (apply_updates
        (collect_info_node (scripted time_only says_yes [] [])
           (initial_state\<lparr>restaurant_name := Some ''Mario's''\<rparr>))
        (initial_state\<lparr>restaurant_name := Some ''Mario's''\<rparr>)) = Some ''20:00''"
  using collection_merges_extracted_fields
          [where A = "scripted time_only says_yes [] []"
             and s = "initial_state\<lparr>restaurant_name := Some ''Mario's''\<rparr>"
             and As = "[scripted time_only says_yes [] [],
                        scripted (no_info ''And the date?'') says_yes [] []]"]
  by (simp add: scripted_def time_only_def no_info_def truthy_str_def truthy_int_def Let_def
        initial_state_def collect_info_node_def)

text \<open>
  Claim C8 as stated says that a field present in the new result overwrites the stored
  value. A result that carries the empty string as restaurant and zero as party size has
  both fields present, and the node keeps the stored restaurant and party size.
\<close>

theorem collection_ignores_empty_values_counterexample:
  "info_restaurant_name (extract_booking_info (scripted empty_values says_yes [] []) sample_state)
     = Some []
   \<and> info_party_size (extract_booking_info (scripted empty_values says_yes [] []) sample_state)
     = Some 0
   \<and> restaurant_name
       (apply_updates (collect_info_node (scripted empty_values says_yes [] []) sample_state)
          sample_state) = Some ''Mario's''
   \<and> party_size
       (apply_updates (collect_info_node (scripted empty_values says_yes [] []) sample_state)
          sample_state) = Some 4"
  by (simp add: collect_info_node_def scripted_def empty_values_def sample_state_def
        truthy_str_def truthy_int_def Let_def)

section \<open>Invoking a completed session\<close>

lemma booking_args_of_messages [simp]:
  "booking_args_of (s\<lparr>messages := ms\<rparr>) = booking_args_of s"
  by (simp add: booking_args_of_def)

lemma user_turn_collects:
  fixes A :: adapters and s :: BookingState and w :: world and reply :: string
  defines "s0 \<equiv> s\<lparr>messages := messages s @ [(Human, reply)]\<rparr>"
  defines "sc \<equiv> apply_updates (collect_info_node A s0) s0"
  assumes "\<not> awaiting_confirmation s"
  shows "user_turn A reply s w =
           Inr (if should_continue_collecting sc = ''confirm''
                then sc\<lparr>messages := messages sc @ [(AI, confirmation_message sc)],
                       all_info_collected := True, awaiting_confirmation := True\<rparr>
                else sc, w)"
  using assms(3)
  by (simp add: user_turn_def invoke_def run_from_Router run_from_Collect_info run_from_Confirm
        confirm_node_def Let_def s0_def sc_def)

text \<open>
  Claim C2, as amended. The graph never reads \<^verbatim>\<open>conversation_complete\<close>. Invoked with a
  new user message on a state where the flag is true and \<^verbatim>\<open>awaiting_confirmation\<close> is
  false (as it is when a terminal node has just set the flag), it runs the collection
  node as on any other turn: no service is called, \<^verbatim>\<open>booking_ref\<close> and
  \<^verbatim>\<open>conversation_complete\<close> keep their values, the history grows by the user's text and the
  model's reply, and each of the six fields keeps its value unless the new extraction
  result carries a truthy value for it, which then overwrites it.
\<close>

theorem complete_session_still_collects:
  fixes A :: adapters and s :: BookingState and w :: world and reply :: string
  defines "s0 \<equiv> s\<lparr>messages := messages s @ [(Human, reply)]\<rparr>"
  defines "r \<equiv> extract_booking_info A s0"
  defines "sc \<equiv> apply_updates (collect_info_node A s0) s0"
  defines "s' \<equiv> (if should_continue_collecting sc = ''confirm''
                  then sc\<lparr>messages := messages sc @ [(AI, confirmation_message sc)],
                         all_info_collected := True, awaiting_confirmation := True\<rparr>
                  else sc)"
  assumes complete: "conversation_complete s" and idle: "\<not> awaiting_confirmation s"
  shows "user_turn A reply s w = Inr (s', w)
         \<and> conversation_complete s' \<and> booking_ref s' = booking_ref s
         \<and> restaurant_name s' =
             (if truthy_str (info_restaurant_name r) then info_restaurant_name r
              else restaurant_name s)
         \<and> date s' = (if truthy_str (info_date r) then info_date r else date s)
         \<and> time s' = (if truthy_str (info_time r) then info_time r else time s)
         \<and> party_size s' =
             (if truthy_int (info_party_size r) then info_party_size r else party_size s)
         \<and> customer_name s' =
             (if truthy_str (info_customer_name r) then info_customer_name r
              else customer_name s)
         \<and> phone s' = (if truthy_str (info_phone r) then info_phone r else phone s)
         \<and> take (length (messages s) + 2) (messages s')
             = messages s @ [(Human, reply), (AI, response_message r)]"
proof -
  have run: "user_turn A reply s w = Inr (s', w)"
    unfolding s'_def sc_def s0_def by (rule user_turn_collects [OF idle])
  have sc: "sc = s0\<lparr>messages := messages s0 @ [(AI, response_message r)],
        restaurant_name :=
          (if truthy_str (info_restaurant_name r) then info_restaurant_name r
           else restaurant_name s0),
        date := (if truthy_str (info_date r) then info_date r else date s0),
        time := (if truthy_str (info_time r) then info_time r else time s0),
        party_size :=
          (if truthy_int (info_party_size r) then info_party_size r else party_size s0),
        customer_name :=
          (if truthy_str (info_customer_name r) then info_customer_name r
           else customer_name s0),
        phone := (if truthy_str (info_phone r) then info_phone r else phone s0)\<rparr>"
    unfolding sc_def r_def by (simp add: collect_info_state Let_def)
  have fields: "conversation_complete s' = conversation_complete sc"
    "booking_ref s' = booking_ref sc" "restaurant_name s' = restaurant_name sc"
    "date s' = date sc" "time s' = time sc" "party_size s' = party_size sc"
    "customer_name s' = customer_name sc" "phone s' = phone sc"
    "take (length (messages s) + 2) (messages s') = take (length (messages s) + 2) (messages sc)"
    by (simp_all add: s'_def sc s0_def)
  show ?thesis
    unfolding fields using run complete by (simp add: sc s0_def)
qed

theorem complete_session_still_collects_witness:
  "conversation_complete completed_state \<and> \<not> awaiting_confirmation completed_state
   \<and> user_turn (scripted changes_restaurant says_yes [] []) ''Actually, make it Luigi's''
        completed_state no_calls = Inr (reopened_state, no_calls)
   \<and> booking_ref reopened_state = booking_ref completed_state
   \<and> phone reopened_state = phone completed_state"
proof -
  have complete: "conversation_complete completed_state"
    and idle: "\<not> awaiting_confirmation completed_state"
    by (simp_all add: completed_state_def sample_state_def)
  note run = complete_session_still_collects
               [where A = "scripted changes_restaurant says_yes [] []"
                  and s = completed_state and w = no_calls
                  and reply = "''Actually, make it Luigi's''",
                OF complete idle, THEN conjunct1]
  have "user_turn (scripted changes_restaurant says_yes [] []) ''Actually, make it Luigi's''
          completed_state no_calls = Inr (reopened_state, no_calls)"
    unfolding run
    by (simp add: collect_info_state Let_def scripted_def changes_restaurant_def no_info_def
          truthy_str_def truthy_int_def should_continue_collecting_def reopened_state_def
          completed_state_def sample_state_def confirmation_message_def)
  then show ?thesis
    using complete idle
    by (simp add: reopened_state_def completed_state_def sample_state_def)
qed

text \<open>
  Claim C2 as stated fails. On the completed sample session a further user message
  changes the restaurant and, all six fields being set, presents the summary again; the
  state is then complete and awaiting confirmation, and a further yes books again and
  replaces the booking reference.
\<close>

theorem terminal_lock_counterexample:
  "conversation_complete completed_state
   \<and> restaurant_name completed_state = Some ''Mario's''
   \<and> booking_ref completed_state = Some ''BK-12345''
   \<and> user_turn (scripted changes_restaurant says_yes [] []) ''Actually, make it Luigi's''
        completed_state no_calls = Inr (reopened_state, no_calls)
   \<and> restaurant_name reopened_state = Some ''Luigi's''
   \<and> conversation_complete reopened_state
   \<and> user_turn (scripted (no_info []) says_yes [booked ''BK-99999''] [True]) ''yes''
        reopened_state no_calls
       = Inr (rebooked_state,
              \<lparr>booking_calls = [(booking_args_of reopened_state, booked ''BK-99999'')],
               sms_calls =
                 [((phone reopened_state,
                    sms_message (reopened_state\<lparr>booking_ref := Some ''BK-99999''\<rparr>)), True)]\<rparr>)
   \<and> booking_ref rebooked_state = Some ''BK-99999''"
proof -
  have idle: "\<not> awaiting_confirmation completed_state"
    by (simp add: completed_state_def sample_state_def)
  have step1:
    "user_turn (scripted changes_restaurant says_yes [] []) ''Actually, make it Luigi's''
       completed_state no_calls = Inr (reopened_state, no_calls)"
    unfolding user_turn_collects [OF idle]
    by (simp add: collect_info_state Let_def scripted_def changes_restaurant_def no_info_def
          truthy_str_def truthy_int_def should_continue_collecting_def reopened_state_def
          completed_state_def sample_state_def confirmation_message_def)
  let ?A = "scripted (no_info []) says_yes [booked ''BK-99999''] [True]"
  let ?t = "reopened_state\<lparr>messages := messages reopened_state @ [(Human, ''yes'')]\<rparr>"
  let ?start = "?t\<lparr>user_confirmed := True, awaiting_confirmation := False\<rparr>"
  let ?b = "?t\<lparr>user_confirmed := True, awaiting_confirmation := False,
               booking_ref := Some ''BK-99999'',
               messages := messages ?t
                 @ [(AI, ''Perfect! I've created your booking. Reference: BK-99999'')]\<rparr>"
  let ?w1 = "\<lparr>booking_calls = [(booking_args_of reopened_state, booked ''BK-99999'')],
               sms_calls = []\<rparr>"
  have waiting: "awaiting_confirmation ?t"
    by (simp add: reopened_state_def)
  have proceed: "user_wants_to_proceed (interpret_confirmation ?A (messages ?t))"
    by (simp add: scripted_def says_yes_def)
  have result: "create_booking ?A (length (booking_calls no_calls)) (booking_args_of ?start)
      = booked ''BK-99999''"
    by (simp add: scripted_def no_calls_def)
  have ok: "success (create_booking ?A (length (booking_calls no_calls)) (booking_args_of ?start))"
    and ref: "truthy_str (result_ref
        (create_booking ?A (length (booking_calls no_calls)) (booking_args_of ?start)))"
    unfolding result by (simp_all add: booked_def truthy_str_def)
  have args: "booking_args_of ?start = booking_args_of reopened_state"
    by (simp add: booking_args_of_def)
  have "invoke ?A ?t no_calls = run_from ?A Create_booking ?start no_calls"
    by (rule invoke_proceed [OF waiting proceed])
  also have "\<dots> = run_from ?A Send_sms ?b ?w1"
    unfolding run_from_Create_booking_succeeded [OF ok ref] result
    by (simp add: booked_def fmt_str_def no_calls_def args)
  finally have booked: "invoke ?A ?t no_calls = run_from ?A Send_sms ?b ?w1" .
  have sent: "send_sms ?A (length (sms_calls ?w1)) (phone ?b) (sms_message ?b)"
    by (simp add: scripted_def)
  have msg: "sms_message ?b = sms_message (reopened_state\<lparr>booking_ref := Some ''BK-99999''\<rparr>)"
    by (simp add: sms_message_def)
  have step2: "user_turn ?A ''yes'' reopened_state no_calls
       = Inr (rebooked_state,
              \<lparr>booking_calls = [(booking_args_of reopened_state, booked ''BK-99999'')],
               sms_calls =
                 [((phone reopened_state,
                    sms_message (reopened_state\<lparr>booking_ref := Some ''BK-99999''\<rparr>)), True)]\<rparr>)"
    unfolding user_turn_def booked run_from_Send_sms_sent [OF sent] msg
    by (simp add: rebooked_state_def)
  have "conversation_complete completed_state"
    "restaurant_name completed_state = Some ''Mario's''"
    "booking_ref completed_state = Some ''BK-12345''"
    "restaurant_name reopened_state = Some ''Luigi's''"
    "conversation_complete reopened_state"
    "booking_ref rebooked_state = Some ''BK-99999''"
    by (simp_all add: rebooked_state_def reopened_state_def completed_state_def sample_state_def)
  then show ?thesis
    using step1 step2 by blast
qed

section \<open>Where the booking reference comes from\<close>

lemma run_from_preserves:
  assumes step: "\<And>A n s w. P s w \<Longrightarrow>
      P (apply_updates (fst (run_node A n s w)) s) (snd (run_node A n s w))"
  shows "P s w \<Longrightarrow> run_from A n s w = Inr (s', w') \<Longrightarrow> P s' w'"
proof (induction A n s w rule: run_from.induct)
  case (1 A n s w)
  obtain us w1 where rn: "run_node A n s w = (us, w1)"
    by (cases "run_node A n s w") auto
  have P1: "P (apply_updates us s) w1"
    using step [OF "1.prems"(1), of A n] rn by simp
  show ?case
  proof (cases "next_node n (apply_updates us s)")
    case (Inl e)
    then show ?thesis
      using "1.prems"(2) rn by (simp add: run_from.simps [of A n s w])
  next
    case (Inr t)
    show ?thesis
    proof (cases t)
      case None
      then show ?thesis
        using "1.prems"(2) rn Inr P1 by (simp add: run_from.simps [of A n s w])
    next
      case (Some n')
      then have "run_from A n' (apply_updates us s) w1 = Inr (s', w')"
        using "1.prems"(2) rn Inr by (simp add: run_from.simps [of A n s w])
      then show ?thesis
        using "1.IH" [OF rn [symmetric] Inr Some P1] by simp
    qed
  qed
qed


lemma run_node_ref_is_committed:
  assumes "ref_is_committed s w"
  shows "ref_is_committed (apply_updates (fst (run_node A n s w)) s) (snd (run_node A n s w))"
proof (cases n)
  case Router
  then show ?thesis using assms by simp
next
  case Collect_info
  then show ?thesis
    using assms by (simp add: collect_info_state Let_def ref_is_committed_def)
next
  case Confirm
  then show ?thesis
    using assms by (simp add: confirm_node_def ref_is_committed_def)
next
  case Handle_confirmation
  then show ?thesis
    using assms by (simp add: handle_confirmation_node_def Let_def ref_is_committed_def)
next
  case Create_booking
  then show ?thesis
    using assms
    by (auto simp: create_booking_node_def call_create_booking_def Let_def ref_is_committed_def)
next
  case Send_sms
  then show ?thesis
    using assms
    by (auto simp: send_sms_node_def call_send_sms_def Let_def ref_is_committed_def)
next
  case Handle_booking_error
  then show ?thesis
    using assms
    by (auto simp: handle_booking_error_node_def call_create_booking_def Let_def
          ref_is_committed_def)
next
  case Handle_sms_error
  then show ?thesis
    using assms by (simp add: handle_sms_error_node_def ref_is_committed_def)
qed

lemma user_turn_ref_is_committed:
  assumes "ref_is_committed s w" and "user_turn A reply s w = Inr (s', w')"
  shows "ref_is_committed s' w'"
proof -
  have "ref_is_committed (s\<lparr>messages := messages s @ [(Human, reply)]\<rparr>) w"
    using assms(1) by (simp add: ref_is_committed_def)
  then show ?thesis
    using assms(2) run_node_ref_is_committed
    unfolding user_turn_def invoke_def
    by (rule run_from_preserves [rotated])
qed

lemma run_session_ref_is_committed:
  "ref_is_committed s w \<Longrightarrow> run_session turns s w = Inr (s', w') \<Longrightarrow> ref_is_committed s' w'"
proof (induction turns arbitrary: s w)
  case Nil
  then show ?case by simp
next
  case (Cons turn turns)
  obtain A reply where turn: "turn = (A, reply)"
    by (cases turn) auto
  show ?case
  proof (cases "user_turn A reply s w")
    case (Inl e)
    then show ?thesis using Cons.prems(2) turn by simp
  next
    case (Inr sw)
    obtain s1 w1 where sw: "sw = (s1, w1)"
      by (cases sw) auto
    have "ref_is_committed s1 w1"
      using user_turn_ref_is_committed [OF Cons.prems(1)] Inr sw by simp
    moreover have "run_session turns s1 w1 = Inr (s', w')"
      using Cons.prems(2) turn Inr sw by simp
    ultimately show ?thesis
      by (rule Cons.IH)
  qed
qed


lemma run_node_appends_messages:
  "\<exists>ms. messages (apply_updates (fst (run_node A n s w)) s) = messages s @ ms"
  by (cases n)
     (simp_all add: collect_info_state Let_def confirm_node_def handle_confirmation_node_def
        create_booking_node_def call_create_booking_def send_sms_node_def call_send_sms_def
        handle_booking_error_node_def handle_sms_error_node_def split: prod.splits)

lemma next_node_no_error:
  "messages s \<noteq> [] \<Longrightarrow> \<exists>t. next_node n s = Inr t"
  by (cases n)
     (simp_all add: router_node_def should_continue_collecting_def
        check_confirmation_routing_def check_booking_success_def check_sms_success_def
        Let_def)

lemma run_from_total:
  "messages s \<noteq> [] \<Longrightarrow> \<exists>s' w'. run_from A n s w = Inr (s', w')"
proof (induction A n s w rule: run_from.induct)
  case (1 A n s w)
  obtain us w1 where rn: "run_node A n s w = (us, w1)"
    by (cases "run_node A n s w") auto
  obtain ms where "messages (apply_updates us s) = messages s @ ms"
    using run_node_appends_messages [of A n s w] rn by auto
  then have m1: "messages (apply_updates us s) \<noteq> []"
    using "1.prems" by simp
  then obtain t where nx: "next_node n (apply_updates us s) = Inr t"
    using next_node_no_error by blast
  show ?case
  proof (cases t)
    case None
    then show ?thesis
      using rn nx by (simp add: run_from.simps [of A n s w])
  next
    case (Some n')
    then have "run_from A n s w = run_from A n' (apply_updates us s) w1"
      using rn nx by (simp add: run_from.simps [of A n s w])
    then show ?thesis
      using "1.IH" [OF rn [symmetric] nx Some m1] by simp
  qed
qed

lemma user_turn_total: "\<exists>s' w'. user_turn A reply s w = Inr (s', w')"
  unfolding user_turn_def invoke_def by (rule run_from_total) simp

lemma run_session_total: "\<exists>s' w'. run_session turns s w = Inr (s', w')"
proof (induction turns arbitrary: s w)
  case Nil
  then show ?case by simp
next
  case (Cons turn turns)
  obtain A reply where turn: "turn = (A, reply)"
    by (cases turn) auto
  obtain s1 w1 where "user_turn A reply s w = Inr (s1, w1)"
    using user_turn_total by blast
  then show ?case
    using Cons.IH [of s1 w1] turn by simp
qed

text \<open>
  Claim C9. Every session, whatever the answers of the model and of the services at each
  turn, returns a state (no turn raises), and in that state \<^verbatim>\<open>booking_ref\<close> is set only if
  some \<^verbatim>\<open>create_booking\<close> call of the session answered success, with that very reference.
  No node breaks this: each node keeps the property whatever the state it runs on.
\<close>

theorem booking_ref_comes_from_a_successful_commit:
  "(\<exists>s w. run_session turns initial_state no_calls = Inr (s, w))
   \<and> (\<forall>s w. run_session turns initial_state no_calls = Inr (s, w) \<longrightarrow>
          booking_ref s \<noteq> None \<longrightarrow>
          (\<exists>(a, r) \<in> set (booking_calls w). success r \<and> result_ref r = booking_ref s))
   \<and> (\<forall>A n s w. ref_is_committed s w \<longrightarrow>
          ref_is_committed (apply_updates (fst (run_node A n s w)) s)
            (snd (run_node A n s w)))"
proof -
  have start: "ref_is_committed initial_state no_calls"
    by (simp add: ref_is_committed_def initial_state_def)
  have "\<exists>(a, r) \<in> set (booking_calls w). success r \<and> result_ref r = booking_ref s"
    if "run_session turns initial_state no_calls = Inr (s, w)" "booking_ref s \<noteq> None" for s w
    using run_session_ref_is_committed [OF start that(1)] that(2)
    by (simp add: ref_is_committed_def)
  then show ?thesis
    using run_session_total [of turns initial_state no_calls] run_node_ref_is_committed
    by blast
qed

theorem booking_ref_comes_from_a_successful_commit_witness:
  "(case run_session sample_session initial_state no_calls of
      Inl e \<Rightarrow> False
    | Inr (s, w) \<Rightarrow>
        booking_ref s = Some ''BK-12345'' \<and> conversation_complete s
        \<and> (\<exists>(a, r) \<in> set (booking_calls w). success r \<and> result_ref r = booking_ref s))"
  using booking_ref_comes_from_a_successful_commit
          [of sample_session, THEN conjunct2, THEN conjunct1]
  by (simp add: sample_session_def initial_state_def no_calls_def user_turn_def invoke_def
        run_from_Router run_from_Collect_info run_from_Confirm run_from_Handle_confirmation
        run_from_Create_booking run_from_Send_sms run_from_Handle_sms_error
        run_from_Handle_booking_error collect_info_state confirm_node_def
        handle_confirmation_node_def create_booking_node_def call_create_booking_def
        send_sms_node_def call_send_sms_def check_sms_success_def
        should_continue_collecting_def scripted_def all_fields_def no_info_def says_yes_def
        booked_def truthy_str_def truthy_int_def fmt_str_def Let_def)

end
